theory Spec2Isabelle
  imports Complex_Main
begin

section \<open>PhotoCards: layout, cover fit, card store and spring integrator\<close>

text \<open>
  A shallow embedding of \<^verbatim>\<open>src/components/christmas/PhotoCards.tsx\<close>.
  JavaScript numbers are modelled as real numbers, so every statement below is about the
  arithmetic the code writes down, not about IEEE rounding. \<^verbatim>\<open>Math.random()\<close> is
  modelled by passing the drawn samples as arguments, in the order the code draws them.
\<close>

subsection \<open>Vectors\<close>

type_synonym triple = "real \<times> real \<times> real"

datatype Vector3 = Vector3 (vx: real) (vy: real) (vz: real)

fun fromTriple :: "triple \<Rightarrow> Vector3" where
  "fromTriple (a, b, c) = Vector3 a b c"

fun sub :: "Vector3 \<Rightarrow> Vector3 \<Rightarrow> Vector3" where
  "sub (Vector3 a b c) (Vector3 d e f) = Vector3 (a - d) (b - e) (c - f)"

fun add :: "Vector3 \<Rightarrow> Vector3 \<Rightarrow> Vector3" where
  "add (Vector3 a b c) (Vector3 d e f) = Vector3 (a + d) (b + e) (c + f)"

fun multiplyScalar :: "Vector3 \<Rightarrow> real \<Rightarrow> Vector3" where
  "multiplyScalar (Vector3 a b c) s = Vector3 (a * s) (b * s) (c * s)"

subsection \<open>Constants\<close>

definition PERMANENT_PHOTOS :: "string list" where
  "PERMANENT_PHOTOS =
    [''/picture/12c4d7e60b6d8e78c5890f63c93c9d20.JPG'',
     ''/picture/1a37b000db75c8b0849b5ee3770c621e.JPG'',
     ''/picture/36fef6375fc7b236b205832d2ba799aa.JPG'',
     ''/picture/42c014aa95b7f848ecb0788c863f5282.JPG'',
     ''/picture/IMG_0133.JPG'',
     ''/picture/IMG_0129.JPG'',
     ''/picture/3b5a847c5437cdc522ad86ce8a1fb9d0.JPG'',
     ''/picture/14ac68aa2d4b1cb51d01bc3cba30d03a.JPG'',
     ''/picture/1edef4a7bef884c903a53d412649130f.JPG'',
     ''/picture/IMG_9295.JPG'']"

definition getDefaultPhotos :: "string list" where
  "getDefaultPhotos = PERMANENT_PHOTOS"

definition SPRING_STIFFNESS :: real where "SPRING_STIFFNESS = 25"
definition SPRING_DAMPING :: real where "SPRING_DAMPING = 8"
definition SCALE_STIFFNESS :: real where "SCALE_STIFFNESS = 30"
definition SCALE_DAMPING :: real where "SCALE_DAMPING = 10"

definition photoWidth :: real where "photoWidth = 0.75"
definition photoHeight :: real where "photoHeight = 0.95"

subsection \<open>Layout generator\<close>

text \<open>
  \<^verbatim>\<open>generateTreePhotoPosition(index, total)\<close>. The local variables \<^verbatim>\<open>t\<close>,
  \<^verbatim>\<open>y\<close>, \<^verbatim>\<open>radius\<close> and \<^verbatim>\<open>angle\<close> are named functions, so that statements
  can speak about them; the function itself is the code's body.
\<close>

definition tree_height :: real where "tree_height = 7"
definition tree_maxRadius :: real where "tree_maxRadius = 2.8"

definition tree_t :: "real \<Rightarrow> real \<Rightarrow> real" where
  "tree_t index totalCount = (index + 0.5) / totalCount"

definition tree_y :: "real \<Rightarrow> real" where
  "tree_y t = t * tree_height - tree_height / 2 + 0.5"

definition tree_radius :: "real \<Rightarrow> real" where
  "tree_radius t = tree_maxRadius * (1 - t * 0.85)"

definition tree_angle :: "real \<Rightarrow> real \<Rightarrow> real" where
  "tree_angle index t = t * pi * 10 + index * pi * 0.5"

definition generateTreePhotoPosition :: "real \<Rightarrow> real \<Rightarrow> triple" where
  "generateTreePhotoPosition index totalCount =
     (let t = tree_t index totalCount;
          y = tree_y t;
          radius = tree_radius t;
          angle = tree_angle index t
      in (cos angle * radius, y, sin angle * radius))"

text \<open>
  \<^verbatim>\<open>generateGalaxyPhotoPosition()\<close>; \<open>r1\<close>, \<open>r2\<close>, \<open>r3\<close> are the three results of
  \<^verbatim>\<open>Math.random()\<close> in call order.
\<close>

definition generateGalaxyPhotoPosition :: "real \<Rightarrow> real \<Rightarrow> real \<Rightarrow> triple" where
  "generateGalaxyPhotoPosition r1 r2 r3 =
     (let radius = 4 + r1 * 6;
          theta = r2 * pi * 2;
          phi = arccos (2 * r3 - 1)
      in (radius * sin phi * cos theta,
          radius * sin phi * sin theta * 0.5,
          radius * cos phi))"

text \<open>Reading a layout point: height, distance from the vertical axis, and the
  Euclidean length of a galaxy point with the vertical factor \<open>0.5\<close> undone.\<close>

fun heightOf :: "triple \<Rightarrow> real" where
  "heightOf (a, b, c) = b"

fun radialOf :: "triple \<Rightarrow> real" where
  "radialOf (a, b, c) = sqrt (a\<^sup>2 + c\<^sup>2)"

fun preFlattenMagnitude :: "triple \<Rightarrow> real" where
  "preFlattenMagnitude (a, b, c) = sqrt (a\<^sup>2 + (b / 0.5)\<^sup>2 + c\<^sup>2)"

subsection \<open>Textures and the cover fit\<close>

datatype Filter = NearestFilter | LinearFilter | LinearMipmapLinearFilter
datatype ColorSpace = NoColorSpace | SRGBColorSpace

text \<open>An image carries its pixel size; the placeholder canvas also carries the hue it
  was filled with (none for a decoded photo, or when no 2D context was available).\<close>

datatype Image = Image (width: real) (height: real) (fillHue: "nat option")

record Texture =
  image_t :: "Image option"
  repeat :: "real \<times> real"
  offset :: "real \<times> real"
  minFilter :: Filter
  magFilter :: Filter
  colorSpace :: ColorSpace
  needsUpdate :: bool

text \<open>The local constant \<^verbatim>\<open>cardAspect\<close> of \<^verbatim>\<open>applyTextureCover\<close> does not depend
  on the arguments and is named here.\<close>

definition cardAspect :: real where
  "cardAspect = photoWidth / photoHeight"

definition applyTextureCover :: "Texture \<Rightarrow> real \<Rightarrow> real \<Rightarrow> Texture" where
  "applyTextureCover texture imageWidth imageHeight =
     (let imageAspect = imageWidth / imageHeight
      in (if imageAspect > cardAspect
          then (let scale = cardAspect / imageAspect
                in texture\<lparr>repeat := (scale, 1), offset := ((1 - scale) / 2, 0)\<rparr>)
          else (let scale = imageAspect / cardAspect
                in texture\<lparr>repeat := (1, scale), offset := (0, (1 - scale) / 2)\<rparr>))
         \<lparr>needsUpdate := True\<rparr>)"

subsection \<open>Card state store\<close>

record CardData =
  treePosition :: triple
  galaxyPosition :: triple
  position :: Vector3
  velocity :: Vector3
  scale :: real
  scaleVelocity :: real
  texture :: "Texture option"
  textureUrl :: string
  time :: real

record PhotoData =
  url :: string
  photoTreePosition :: triple
  photoGalaxyPosition :: triple

text \<open>\<^verbatim>\<open>xs.map((x, i) => f(x, i))\<close> and the read \<^verbatim>\<open>xs[i]\<close>, which is
  \<^verbatim>\<open>undefined\<close> out of range.\<close>

definition mapi :: "('a \<Rightarrow> nat \<Rightarrow> 'b) \<Rightarrow> 'a list \<Rightarrow> 'b list" where
  "mapi f xs = map (\<lambda>(x, i). f x i) (zip xs [0..<length xs])"

definition lookup :: "'a list \<Rightarrow> nat \<Rightarrow> 'a option" where
  "lookup xs i = (if i < length xs then Some (xs ! i) else None)"

text \<open>\<^verbatim>\<open>existing?.field || fallback\<close> on a number: the fallback is taken when there is
  no existing card and also when the field is \<open>0\<close>, which JavaScript treats as false.\<close>

definition orNumber :: "real option \<Rightarrow> real \<Rightarrow> real" where
  "orNumber v fallback = (case v of None \<Rightarrow> fallback | Some n \<Rightarrow> if n = 0 then fallback else n)"

definition photoUrls :: "string list option \<Rightarrow> string list" where
  "photoUrls photos =
     (case photos of
        None \<Rightarrow> getDefaultPhotos
      | Some ps \<Rightarrow> if length ps > 0 then ps else getDefaultPhotos)"

text \<open>The memoised \<^verbatim>\<open>photoData\<close>, recomputed whenever \<^verbatim>\<open>photoUrls\<close> changes;
  \<open>galaxySamples i\<close> holds the three random numbers drawn for entry \<open>i\<close> in that
  computation.\<close>

definition photoData :: "string list \<Rightarrow> (nat \<Rightarrow> triple) \<Rightarrow> PhotoData list" where
  "photoData urls galaxySamples =
     mapi (\<lambda>u i.
        \<lparr>url = u,
         photoTreePosition = generateTreePhotoPosition (real i) (real (min (length urls) 12)),
         photoGalaxyPosition =
           (case galaxySamples i of (r1, r2, r3) \<Rightarrow> generateGalaxyPhotoPosition r1 r2 r3)\<rparr>)
       (take 12 urls)"

text \<open>The body of the \<^verbatim>\<open>photoData.map\<close> callback in the effect: the new card at
  index \<open>i\<close>, from the card that was there before (if any). \<open>phaseSample\<close> is the
  random number drawn for \<^verbatim>\<open>time\<close> when the fallback is taken.\<close>

definition reconcileCard :: "CardData option \<Rightarrow> PhotoData \<Rightarrow> real \<Rightarrow> CardData" where
  "reconcileCard existing photo phaseSample =
     (let urlChanged = (map_option textureUrl existing \<noteq> Some (url photo))
      in \<lparr>treePosition = photoTreePosition photo,
          galaxyPosition = photoGalaxyPosition photo,
          position = (case existing of Some e \<Rightarrow> position e
                      | None \<Rightarrow> fromTriple (photoTreePosition photo)),
          velocity = (case existing of Some e \<Rightarrow> velocity e | None \<Rightarrow> Vector3 0 0 0),
          scale = orNumber (map_option scale existing) 0.4,
          scaleVelocity = orNumber (map_option scaleVelocity existing) 0,
          texture = (if urlChanged then None
                     else (case existing of Some e \<Rightarrow> texture e | None \<Rightarrow> None)),
          textureUrl = url photo,
          time = orNumber (map_option time existing) (phaseSample * pi * 2)\<rparr>)"

definition reconcile :: "CardData list \<Rightarrow> PhotoData list \<Rightarrow> (nat \<Rightarrow> real) \<Rightarrow> CardData list" where
  "reconcile current pd phaseSamples =
     mapi (\<lambda>photo i. reconcileCard (lookup current i) photo (phaseSamples i)) pd"

text \<open>The acquisitions the effect starts: one \<^verbatim>\<open>loader.load(photo.url, ...)\<close> for each
  new card without a texture, remembered as the index and source the callbacks close over.\<close>

definition loadRequests :: "CardData list \<Rightarrow> (nat \<times> string) list" where
  "loadRequests cards =
     concat (mapi (\<lambda>c i. if texture c = None then [(i, textureUrl c)] else []) cards)"

text \<open>One run of the component with the given \<^verbatim>\<open>photos\<close> property: memo, then effect.\<close>

definition render :: "string list option \<Rightarrow> (nat \<Rightarrow> triple) \<Rightarrow> (nat \<Rightarrow> real) \<Rightarrow> CardData list
    \<Rightarrow> CardData list" where
  "render photos galaxySamples phaseSamples current =
     reconcile current (photoData (photoUrls photos) galaxySamples) phaseSamples"

subsection \<open>Acquisition callbacks\<close>

text \<open>The success callback of the request for index \<open>i\<close> and source \<open>u\<close>, run on the
  card list as it is when the acquisition completes.\<close>

definition prepareTexture :: "Texture \<Rightarrow> Texture" where
  "prepareTexture tex =
     (let tex1 = tex\<lparr>minFilter := LinearFilter, magFilter := LinearFilter,
                     colorSpace := SRGBColorSpace\<rparr>
      in case image_t tex1 of
           Some img \<Rightarrow> applyTextureCover tex1 (width img) (height img)
         | None \<Rightarrow> tex1)"

definition onLoad :: "nat \<Rightarrow> string \<Rightarrow> Texture \<Rightarrow> CardData list \<Rightarrow> CardData list" where
  "onLoad i u tex current =
     (let tex' = prepareTexture tex
      in if i < length current
         then current[i := (current ! i)\<lparr>texture := Some tex', textureUrl := u\<rparr>]
         else current)"

definition placeholderTex :: "nat \<Rightarrow> bool \<Rightarrow> Texture" where
  "placeholderTex i ctx =
     \<lparr>image_t = Some (Image 200 200 (if ctx then Some ((i * 30) mod 360) else None)),
      repeat = (1, 1), offset = (0, 0),
      minFilter = LinearMipmapLinearFilter, magFilter = LinearFilter,
      colorSpace = SRGBColorSpace, needsUpdate = True\<rparr>"

definition onError :: "nat \<Rightarrow> bool \<Rightarrow> CardData list \<Rightarrow> CardData list" where
  "onError i ctx current =
     (if i < length current
      then current[i := (current ! i)\<lparr>texture := Some (placeholderTex i ctx)\<rparr>]
      else current)"

subsection \<open>Spring integrator\<close>

type_synonym TreeState = string

record MeshGroup =
  meshPosition :: Vector3
  meshScale :: Vector3
  lookingAt :: Vector3

definition isFocused :: "int option \<Rightarrow> nat \<Rightarrow> bool" where
  "isFocused focusedIndex i = (focusedIndex = Some (int i))"

definition targetPos :: "TreeState \<Rightarrow> bool \<Rightarrow> CardData \<Rightarrow> Vector3" where
  "targetPos state focused crd =
     (if focused then Vector3 0 0 0.8
      else if state = ''tree'' then fromTriple (treePosition crd)
      else fromTriple (galaxyPosition crd))"

definition targetScale :: "bool \<Rightarrow> real" where
  "targetScale focused = (if focused then 5 else 0.4)"

text \<open>The loop body of \<^verbatim>\<open>useFrame\<close> for a card that has a mesh group.\<close>

definition frameCard :: "TreeState \<Rightarrow> int option \<Rightarrow> Vector3 \<Rightarrow> real \<Rightarrow> nat \<Rightarrow> CardData \<Rightarrow> MeshGroup
    \<Rightarrow> CardData \<times> MeshGroup" where
  "frameCard state focusedIndex camera dt i crd meshGroup =
     (let time' = time crd + dt;
          focused = isFocused focusedIndex i;
          tPos = targetPos state focused crd;
          tScale = targetScale focused;
          displacement = sub (position crd) tPos;
          springForce = multiplyScalar displacement (- SPRING_STIFFNESS);
          dampingForce = multiplyScalar (velocity crd) (- SPRING_DAMPING);
          acceleration = add springForce dampingForce;
          velocity' = add (velocity crd) (multiplyScalar acceleration dt);
          position' = add (position crd) (multiplyScalar velocity' dt);
          scaleDisplacement = scale crd - tScale;
          scaleSpringForce = - SCALE_STIFFNESS * scaleDisplacement;
          scaleDampingForce = - SCALE_DAMPING * scaleVelocity crd;
          scaleVelocity' = scaleVelocity crd + (scaleSpringForce + scaleDampingForce) * dt;
          scale' = scale crd + scaleVelocity' * dt;
          shown = (if \<not> focused
                   then Vector3 (vx position') (vy position' + sin (time' * 0.5) * 0.005)
                          (vz position')
                   else position')
      in (crd\<lparr>position := position', velocity := velocity', scale := scale',
               scaleVelocity := scaleVelocity', time := time'\<rparr>,
          meshGroup\<lparr>meshPosition := shown, meshScale := Vector3 scale' scale' 1,
                    lookingAt := camera\<rparr>))"

text \<open>One iteration of the \<^verbatim>\<open>for\<close> loop: a card without a mesh group is skipped.\<close>

definition frameIteration :: "TreeState \<Rightarrow> int option \<Rightarrow> Vector3 \<Rightarrow> real \<Rightarrow> nat
    \<Rightarrow> CardData list \<times> MeshGroup option list \<Rightarrow> CardData list \<times> MeshGroup option list" where
  "frameIteration state focusedIndex camera dt i s =
     (case s of (cards, meshRefs) \<Rightarrow>
        (case lookup meshRefs i of
           Some (Some meshGroup) \<Rightarrow>
             (case frameCard state focusedIndex camera dt i (cards ! i) meshGroup of
                (card', mesh') \<Rightarrow> (cards[i := card'], meshRefs[i := Some mesh']))
         | _ \<Rightarrow> (cards, meshRefs)))"

definition useFrame :: "TreeState \<Rightarrow> int option \<Rightarrow> Vector3 \<Rightarrow> real
    \<Rightarrow> CardData list \<times> MeshGroup option list \<Rightarrow> CardData list \<times> MeshGroup option list" where
  "useFrame state focusedIndex camera delta s =
     (let dt = min delta 0.033
      in fold (frameIteration state focusedIndex camera dt) [0..<length (fst s)] s)"

subsection \<open>Sample inputs\<close>

text \<open>Concrete values at which the statements below are instantiated.\<close>

definition sampleTexture :: Texture where
  "sampleTexture =
     \<lparr>image_t = Some (Image 30 19 None), repeat = (1, 1), offset = (0, 0),
      minFilter = LinearMipmapLinearFilter, magFilter = LinearFilter,
      colorSpace = NoColorSpace, needsUpdate = False\<rparr>"

definition sampleCard :: CardData where
  "sampleCard =
     \<lparr>treePosition = (1, 2, 3), galaxyPosition = (4, 5, 6),
      position = Vector3 0 0 0, velocity = Vector3 0 0 0,
      scale = 0.4, scaleVelocity = 0, texture = None, textureUrl = ''a'', time = 1\<rparr>"

definition sampleMesh :: MeshGroup where
  "sampleMesh =
     \<lparr>meshPosition = Vector3 0 0 0, meshScale = Vector3 0.4 0.4 1, lookingAt = Vector3 0 0 0\<rparr>"

definition sampleGalaxy :: "nat \<Rightarrow> triple" where
  "sampleGalaxy i = (0, 0, 1 / 2)"

definition sampleGalaxy' :: "nat \<Rightarrow> triple" where
  "sampleGalaxy' i = (1 / 2, 0, 1 / 2)"

definition samplePhase :: "nat \<Rightarrow> real" where
  "samplePhase i = 1 / 4"

text \<open>A run of the component: two photos are shown, one frame passes with the second card
  focused, then the second source is replaced. \<open>replacedCards\<close> is the same replacement
  with no frame in between.\<close>

definition firstCards :: "CardData list" where
  "firstCards = render (Some [''a'', ''b'']) sampleGalaxy samplePhase []"

definition movedCards :: "CardData list" where
  "movedCards =
     fst (useFrame ''tree'' (Some 1) (Vector3 0 0 10) 1 (firstCards, [Some sampleMesh, Some sampleMesh]))"

definition secondCards :: "CardData list" where
  "secondCards = render (Some [''a'', ''c'']) sampleGalaxy' samplePhase movedCards"

definition otherTexture :: Texture where
  "otherTexture = sampleTexture\<lparr>image_t := Some (Image 10 10 None)\<rparr>"


definition replacedCards :: "CardData list" where
  "replacedCards = render (Some [''a'', ''c'']) sampleGalaxy' samplePhase firstCards"

section \<open>Properties\<close>

subsection \<open>Lists\<close>

lemma length_mapi: "length (mapi f xs) = length xs"
  by (simp add: mapi_def)

lemma nth_mapi: "i < length xs \<Longrightarrow> mapi f xs ! i = f (xs ! i) i"
  by (simp add: mapi_def)

subsection \<open>Cover fit\<close>

lemma cardAspect_pos: "0 < cardAspect"
  by (simp add: cardAspect_def photoWidth_def photoHeight_def)

lemma cover_wide:
  assumes "r > cardAspect" and "r = a / b"
  shows "repeat (applyTextureCover tex a b) = (cardAspect / r, 1)"
    and "offset (applyTextureCover tex a b) = ((1 - cardAspect / r) / 2, 0)"
    and "needsUpdate (applyTextureCover tex a b)"
  using assms by (simp_all add: applyTextureCover_def Let_def)

lemma cover_tall:
  assumes "\<not> r > cardAspect" and "r = a / b"
  shows "repeat (applyTextureCover tex a b) = (1, r / cardAspect)"
    and "offset (applyTextureCover tex a b) = (0, (1 - r / cardAspect) / 2)"
    and "needsUpdate (applyTextureCover tex a b)"
  using assms by (simp_all add: applyTextureCover_def Let_def)

text \<open>
  Claim C4. For an image of positive width \<open>a\<close> and height \<open>b\<close>: when the source aspect
  \<open>a / b\<close> exceeds the target aspect, the horizontal repeat is \<open>cardAspect / (a / b)\<close>,
  the vertical repeat is \<open>1\<close> and the offset is \<open>((1 - s) / 2, 0)\<close>; otherwise the
  vertical repeat is \<open>(a / b) / cardAspect\<close>, the horizontal repeat is \<open>1\<close> and the offset
  is \<open>(0, (1 - s) / 2)\<close>. Equal aspects give repeat \<open>(1, 1)\<close> and offset \<open>(0, 0)\<close>; a
  source twice as wide as the target gives horizontal repeat \<open>1 / 2\<close> and horizontal offset
  \<open>1 / 4\<close>.
\<close>

theorem cover_fit_transform:
  assumes "0 < a" and "0 < b"
  shows "(a / b > cardAspect \<longrightarrow>
            repeat (applyTextureCover tex a b) = (cardAspect / (a / b), 1) \<and>
            offset (applyTextureCover tex a b) = ((1 - cardAspect / (a / b)) / 2, 0))
       \<and> (\<not> a / b > cardAspect \<longrightarrow>
            repeat (applyTextureCover tex a b) = (1, (a / b) / cardAspect) \<and>
            offset (applyTextureCover tex a b) = (0, (1 - (a / b) / cardAspect) / 2))
       \<and> (a / b = cardAspect \<longrightarrow>
            repeat (applyTextureCover tex a b) = (1, 1) \<and>
            offset (applyTextureCover tex a b) = (0, 0))
       \<and> (a / b = 2 * cardAspect \<longrightarrow>
            repeat (applyTextureCover tex a b) = (1 / 2, 1) \<and>
            offset (applyTextureCover tex a b) = (1 / 4, 0))"
proof -
  define r where "r = a / b"
  note c = cardAspect_pos
  have wide: "r > cardAspect \<longrightarrow>
      repeat (applyTextureCover tex a b) = (cardAspect / r, 1) \<and>
      offset (applyTextureCover tex a b) = ((1 - cardAspect / r) / 2, 0)"
    using cover_wide[OF _ r_def] by blast
  have tall: "\<not> r > cardAspect \<longrightarrow>
      repeat (applyTextureCover tex a b) = (1, r / cardAspect) \<and>
      offset (applyTextureCover tex a b) = (0, (1 - r / cardAspect) / 2)"
    using cover_tall[OF _ r_def] by blast
  have same: "r = cardAspect \<longrightarrow>
      repeat (applyTextureCover tex a b) = (1, 1) \<and> offset (applyTextureCover tex a b) = (0, 0)"
    using tall c by auto
  have twice: "r = 2 * cardAspect \<longrightarrow>
      repeat (applyTextureCover tex a b) = (1 / 2, 1) \<and>
      offset (applyTextureCover tex a b) = (1 / 4, 0)"
    using wide c by auto
  from wide tall same twice show ?thesis unfolding r_def by blast
qed

lemma window_bounds:
  fixes s :: real
  assumes "0 < s" and "s \<le> 1"
  shows "0 \<le> (1 - s) / 2" and "(1 - s) / 2 < 1 / 2" and "(1 - s) / 2 + s \<le> 1"
  using assms by (simp_all add: field_simps)

text \<open>
  Claim C10. For an image of positive width and height the crop window stays inside the
  unit square: each repeat component is in \<open>(0, 1]\<close>, each offset component is
  \<open>(1 - repeat) / 2\<close> and lies in \<open>[0, 1 / 2)\<close>, and offset plus repeat is at most \<open>1\<close>
  on each axis.
\<close>

theorem cover_window_inside:
  assumes "0 < a" and "0 < b"
  shows "0 < fst (repeat (applyTextureCover tex a b)) \<and> fst (repeat (applyTextureCover tex a b)) \<le> 1
       \<and> 0 < snd (repeat (applyTextureCover tex a b)) \<and> snd (repeat (applyTextureCover tex a b)) \<le> 1
       \<and> fst (offset (applyTextureCover tex a b)) = (1 - fst (repeat (applyTextureCover tex a b))) / 2
       \<and> snd (offset (applyTextureCover tex a b)) = (1 - snd (repeat (applyTextureCover tex a b))) / 2
       \<and> 0 \<le> fst (offset (applyTextureCover tex a b)) \<and> fst (offset (applyTextureCover tex a b)) < 1 / 2
       \<and> 0 \<le> snd (offset (applyTextureCover tex a b)) \<and> snd (offset (applyTextureCover tex a b)) < 1 / 2
       \<and> fst (offset (applyTextureCover tex a b)) + fst (repeat (applyTextureCover tex a b)) \<le> 1
       \<and> snd (offset (applyTextureCover tex a b)) + snd (repeat (applyTextureCover tex a b)) \<le> 1"
proof -
  define r where "r = a / b"
  have r: "0 < r" using assms by (simp add: r_def)
  note c = cardAspect_pos
  show ?thesis
  proof (cases "r > cardAspect")
    case True
    define s where "s = cardAspect / r"
    have s: "0 < s" "s \<le> 1" using True r c by (simp_all add: s_def)
    have "repeat (applyTextureCover tex a b) = (s, 1)"
      and "offset (applyTextureCover tex a b) = ((1 - s) / 2, 0)"
      unfolding s_def using cover_wide[OF True r_def] by simp_all
    then show ?thesis using s window_bounds[OF s] by simp
  next
    case False
    define s where "s = r / cardAspect"
    have s: "0 < s" "s \<le> 1" using False r c by (simp_all add: s_def)
    have "repeat (applyTextureCover tex a b) = (1, s)"
      and "offset (applyTextureCover tex a b) = (0, (1 - s) / 2)"
      unfolding s_def using cover_tall[OF False r_def] by simp_all
    then show ?thesis using s window_bounds[OF s] by simp
  qed
qed

theorem cover_fit_transform_witness:
  "repeat (applyTextureCover sampleTexture 30 19) = (1 / 2, 1)
   \<and> offset (applyTextureCover sampleTexture 30 19) = (1 / 4, 0)"
  using cover_fit_transform[of 30 19 sampleTexture]
  by (simp add: cardAspect_def photoWidth_def photoHeight_def)

theorem cover_window_inside_witness:
  "0 < fst (repeat (applyTextureCover sampleTexture 30 19))
   \<and> fst (offset (applyTextureCover sampleTexture 30 19))
       + fst (repeat (applyTextureCover sampleTexture 30 19)) \<le> 1
   \<and> snd (offset (applyTextureCover sampleTexture 30 19))
       + snd (repeat (applyTextureCover sampleTexture 30 19)) \<le> 1"
  using cover_window_inside[of 30 19 sampleTexture] by simp

subsection \<open>Layouts\<close>

lemma tree_position_parts:
  "generateTreePhotoPosition i n =
     (cos (tree_angle i (tree_t i n)) * tree_radius (tree_t i n),
      tree_y (tree_t i n),
      sin (tree_angle i (tree_t i n)) * tree_radius (tree_t i n))"
  by (simp add: generateTreePhotoPosition_def Let_def)

lemma tree_t_mono: "0 < n \<Longrightarrow> i \<le> j \<Longrightarrow> tree_t i n \<le> tree_t j n"
  by (simp add: tree_t_def divide_right_mono)

lemma tree_t_strict: "0 < n \<Longrightarrow> i < j \<Longrightarrow> tree_t i n < tree_t j n"
  by (simp add: tree_t_def divide_strict_right_mono)

lemma tree_t_below_one:
  assumes "i < n"
  shows "tree_t (real i) (real n) < 1"
proof -
  have "real i + 1 \<le> real n" using assms by linarith
  then have "real i + 0.5 < real n" by simp
  moreover have "0 < real n" using assms by simp
  ultimately show ?thesis by (simp add: tree_t_def)
qed

lemma tree_y_mono: "s \<le> t \<Longrightarrow> tree_y s \<le> tree_y t"
  by (simp add: tree_y_def tree_height_def)

lemma tree_radius_strict: "s < t \<Longrightarrow> tree_radius t < tree_radius s"
  by (simp add: tree_radius_def tree_maxRadius_def)

lemma tree_radius_pos: "t < 1 \<Longrightarrow> 0 < tree_radius t"
  by (simp add: tree_radius_def tree_maxRadius_def)

lemma circle_norm: "sqrt ((cos a * r)\<^sup>2 + (sin a * r)\<^sup>2) = \<bar>r\<bar>"
proof -
  have "(cos a * r)\<^sup>2 + (sin a * r)\<^sup>2 = (cos a)\<^sup>2 * r\<^sup>2 + (sin a)\<^sup>2 * r\<^sup>2"
    by (simp only: power_mult_distrib)
  also have "\<dots> = ((cos a)\<^sup>2 + (sin a)\<^sup>2) * r\<^sup>2"
    by (simp only: distrib_right)
  also have "\<dots> = r\<^sup>2" by simp
  finally show ?thesis by simp
qed

lemma radial_tree:
  assumes "i < n"
  shows "radialOf (generateTreePhotoPosition (real i) (real n)) = tree_radius (tree_t (real i) (real n))"
  using tree_radius_pos[OF tree_t_below_one[OF assms]]
  by (simp add: tree_position_parts circle_norm)

text \<open>
  Claim C7. For indices \<open>i \<le> j < n\<close> the height of the tree layout point is
  non-decreasing in the index; the distance of the point from the vertical axis is the
  local \<^verbatim>\<open>radius\<close>, which is strictly decreasing in \<open>t\<close>, and so strictly decreasing
  in the index as well.
\<close>

theorem tree_layout_monotone:
  assumes "i \<le> j" and "j < n"
  shows "heightOf (generateTreePhotoPosition (real i) (real n))
           \<le> heightOf (generateTreePhotoPosition (real j) (real n))
       \<and> radialOf (generateTreePhotoPosition (real i) (real n)) = tree_radius (tree_t (real i) (real n))
       \<and> (\<forall>s t. s < t \<longrightarrow> tree_radius t < tree_radius s)
       \<and> (i < j \<longrightarrow> radialOf (generateTreePhotoPosition (real j) (real n))
                     < radialOf (generateTreePhotoPosition (real i) (real n)))"
proof -
  have n: "0 < real n" and i: "i < n" using assms by simp_all
  have "tree_t (real i) (real n) \<le> tree_t (real j) (real n)"
    using assms by (intro tree_t_mono n) simp
  then have h: "heightOf (generateTreePhotoPosition (real i) (real n))
           \<le> heightOf (generateTreePhotoPosition (real j) (real n))"
    by (simp add: tree_position_parts tree_y_mono)
  have r: "i < j \<longrightarrow> radialOf (generateTreePhotoPosition (real j) (real n))
                     < radialOf (generateTreePhotoPosition (real i) (real n))"
  proof
    assume "i < j"
    then have "tree_t (real i) (real n) < tree_t (real j) (real n)"
      by (intro tree_t_strict n) simp
    then show "radialOf (generateTreePhotoPosition (real j) (real n))
                     < radialOf (generateTreePhotoPosition (real i) (real n))"
      by (simp add: radial_tree[OF i] radial_tree[OF assms(2)] tree_radius_strict)
  qed
  from h r radial_tree[OF i] tree_radius_strict show ?thesis by blast
qed

lemma sphere_norm:
  fixes r p q :: real
  shows "(r * sin p * cos q)\<^sup>2 + (r * sin p * sin q)\<^sup>2 + (r * cos p)\<^sup>2 = r\<^sup>2"
proof -
  have "(r * sin p * cos q)\<^sup>2 + (r * sin p * sin q)\<^sup>2
          = (r * sin p)\<^sup>2 * (cos q)\<^sup>2 + (r * sin p)\<^sup>2 * (sin q)\<^sup>2"
    by (simp only: power_mult_distrib)
  also have "\<dots> = (r * sin p)\<^sup>2 * ((cos q)\<^sup>2 + (sin q)\<^sup>2)"
    by (simp only: distrib_left)
  also have "\<dots> = r\<^sup>2 * (sin p)\<^sup>2"
    by (simp add: power_mult_distrib)
  finally have "(r * sin p * cos q)\<^sup>2 + (r * sin p * sin q)\<^sup>2 + (r * cos p)\<^sup>2
          = r\<^sup>2 * (sin p)\<^sup>2 + r\<^sup>2 * (cos p)\<^sup>2"
    by (simp only: power_mult_distrib)
  also have "\<dots> = r\<^sup>2 * ((sin p)\<^sup>2 + (cos p)\<^sup>2)"
    by (simp only: distrib_left)
  also have "\<dots> = r\<^sup>2" by simp
  finally show ?thesis .
qed

text \<open>
  Claim C8. For random samples in \<open>[0, 1)\<close> the Euclidean length of the galaxy point,
  with the vertical flattening factor undone, is the sampled radius \<open>4 + r1 * 6\<close> and so
  lies in \<open>[4, 10]\<close>.
\<close>

theorem galaxy_magnitude_in_shell:
  assumes "0 \<le> r1" "r1 < 1" and "0 \<le> r2" "r2 < 1" and "0 \<le> r3" "r3 < 1"
  shows "preFlattenMagnitude (generateGalaxyPhotoPosition r1 r2 r3) = 4 + r1 * 6
       \<and> 4 \<le> preFlattenMagnitude (generateGalaxyPhotoPosition r1 r2 r3)
       \<and> preFlattenMagnitude (generateGalaxyPhotoPosition r1 r2 r3) \<le> 10"
proof -
  define r where "r = 4 + r1 * 6"
  define p where "p = arccos (2 * r3 - 1)"
  define q where "q = r2 * pi * 2"
  have r: "4 \<le> r" "r \<le> 10" using assms by (simp_all add: r_def)
  have "preFlattenMagnitude (generateGalaxyPhotoPosition r1 r2 r3)
          = sqrt ((r * sin p * cos q)\<^sup>2 + (r * sin p * sin q)\<^sup>2 + (r * cos p)\<^sup>2)"
    by (simp add: generateGalaxyPhotoPosition_def Let_def r_def p_def q_def)
  also have "\<dots> = \<bar>r\<bar>" by (simp add: sphere_norm)
  also have "\<dots> = r" using r by simp
  finally show ?thesis using r by (simp add: r_def)
qed

theorem galaxy_magnitude_in_shell_witness:
  "preFlattenMagnitude (generateGalaxyPhotoPosition 0 0 (1 / 2)) = 4"
  using galaxy_magnitude_in_shell[of 0 0 "1 / 2"] by simp

theorem tree_layout_monotone_witness:
  "heightOf (generateTreePhotoPosition (real (0::nat)) (real (2::nat)))
     \<le> heightOf (generateTreePhotoPosition (real (1::nat)) (real (2::nat)))
   \<and> radialOf (generateTreePhotoPosition (real (1::nat)) (real (2::nat)))
     < radialOf (generateTreePhotoPosition (real (0::nat)) (real (2::nat)))"
  using tree_layout_monotone[of 0 1 2] by simp

subsection \<open>The frame loop\<close>

lemma frameIteration_hit:
  assumes "lookup meshRefs i = Some (Some m)"
  shows "frameIteration st fi cam dt i (cards, meshRefs) =
           (cards[i := fst (frameCard st fi cam dt i (cards ! i) m)],
            meshRefs[i := Some (snd (frameCard st fi cam dt i (cards ! i) m))])"
  using assms by (simp add: frameIteration_def split: prod.splits)

lemma frameIteration_miss:
  assumes "\<forall>m. lookup meshRefs i \<noteq> Some (Some m)"
  shows "frameIteration st fi cam dt i (cards, meshRefs) = (cards, meshRefs)"
  using assms by (simp add: frameIteration_def split: option.splits)

lemma frameIteration_length:
  "length (fst (frameIteration st fi cam dt i s)) = length (fst s)
   \<and> length (snd (frameIteration st fi cam dt i s)) = length (snd s)"
  by (cases s) (simp add: frameIteration_def split: option.splits prod.splits)

lemma frameIteration_other:
  assumes "j \<noteq> i"
  shows "fst (frameIteration st fi cam dt i s) ! j = fst s ! j"
    and "snd (frameIteration st fi cam dt i s) ! j = snd s ! j"
  using assms by (cases s; simp add: frameIteration_def split: option.splits prod.splits)+

lemma fold_frame_invariant:
  assumes "n \<le> length cards"
  shows "length (fst (fold (frameIteration st fi cam dt) [0..<n] (cards, meshRefs))) = length cards
       \<and> length (snd (fold (frameIteration st fi cam dt) [0..<n] (cards, meshRefs))) = length meshRefs
       \<and> (\<forall>j. n \<le> j \<longrightarrow>
             fst (fold (frameIteration st fi cam dt) [0..<n] (cards, meshRefs)) ! j = cards ! j
           \<and> snd (fold (frameIteration st fi cam dt) [0..<n] (cards, meshRefs)) ! j = meshRefs ! j)
       \<and> (\<forall>j < n. fst (fold (frameIteration st fi cam dt) [0..<n] (cards, meshRefs)) ! j =
             (case lookup meshRefs j of
                Some (Some m) \<Rightarrow> fst (frameCard st fi cam dt j (cards ! j) m)
              | _ \<Rightarrow> cards ! j))"
  using assms
proof (induction n)
  case 0
  then show ?case by simp
next
  case (Suc n)
  define s where "s = fold (frameIteration st fi cam dt) [0..<n] (cards, meshRefs)"
  have step: "fold (frameIteration st fi cam dt) [0..<Suc n] (cards, meshRefs)
                = frameIteration st fi cam dt n s"
    by (simp add: s_def)
  from Suc have n: "n < length cards" and "n \<le> length cards" by simp_all
  with Suc.IH have len: "length (fst s) = length cards" "length (snd s) = length meshRefs"
    and rest: "\<And>j. n \<le> j \<Longrightarrow> fst s ! j = cards ! j \<and> snd s ! j = meshRefs ! j"
    and earlier: "\<And>j. j < n \<Longrightarrow> fst s ! j =
             (case lookup meshRefs j of
                Some (Some m) \<Rightarrow> fst (frameCard st fi cam dt j (cards ! j) m)
              | _ \<Rightarrow> cards ! j)"
    unfolding s_def by blast+
  have look: "lookup (snd s) n = lookup meshRefs n"
    using rest[of n] len by (simp add: lookup_def)
  have here: "fst (frameIteration st fi cam dt n s) ! n =
             (case lookup meshRefs n of
                Some (Some m) \<Rightarrow> fst (frameCard st fi cam dt n (cards ! n) m)
              | _ \<Rightarrow> cards ! n)"
  proof (cases "\<exists>m. lookup meshRefs n = Some (Some m)")
    case True
    then obtain m where m: "lookup meshRefs n = Some (Some m)" by blast
    then have "lookup (snd s) n = Some (Some m)" using look by simp
    from frameIteration_hit[OF this, of st fi cam dt "fst s"] show ?thesis
      using m n len rest[of n] by simp
  next
    case False
    then have "\<forall>m. lookup (snd s) n \<noteq> Some (Some m)" using look by simp
    from frameIteration_miss[OF this, of st fi cam dt "fst s"] show ?thesis
      using False rest[of n] by (auto split: option.splits)
  qed
  show ?case unfolding step
  proof (intro conjI allI impI)
    show "length (fst (frameIteration st fi cam dt n s)) = length cards"
      using frameIteration_length[of st fi cam dt n s] len by simp
    show "length (snd (frameIteration st fi cam dt n s)) = length meshRefs"
      using frameIteration_length[of st fi cam dt n s] len by simp
  next
    fix j assume "Suc n \<le> j"
    then have "j \<noteq> n" "n \<le> j" by simp_all
    then show "fst (frameIteration st fi cam dt n s) ! j = cards ! j"
      and "snd (frameIteration st fi cam dt n s) ! j = meshRefs ! j"
      using frameIteration_other[of j n st fi cam dt s] rest[of j] by simp_all
  next
    fix j assume "j < Suc n"
    show "fst (frameIteration st fi cam dt n s) ! j =
             (case lookup meshRefs j of
                Some (Some m) \<Rightarrow> fst (frameCard st fi cam dt j (cards ! j) m)
              | _ \<Rightarrow> cards ! j)"
    proof (cases "j = n")
      case True
      show ?thesis unfolding True by (rule here)
    next
      case False
      with \<open>j < Suc n\<close> have "j < n" by simp
      then show ?thesis using frameIteration_other(1)[OF False, of st fi cam dt s] earlier[of j] by simp
    qed
  qed
qed

lemma useFrame_length:
  "length (fst (useFrame st fi cam delta (cards, meshRefs))) = length cards"
  using fold_frame_invariant[of "length cards" cards] by (simp add: useFrame_def Let_def)

lemma useFrame_nth:
  assumes "i < length cards" and "lookup meshRefs i = Some (Some m)"
  shows "fst (useFrame st fi cam delta (cards, meshRefs)) ! i
           = fst (frameCard st fi cam (min delta 0.033) i (cards ! i) m)"
proof -
  have "fst (fold (frameIteration st fi cam (min delta 0.033)) [0..<length cards] (cards, meshRefs)) ! i
          = (case lookup meshRefs i of
                Some (Some m) \<Rightarrow> fst (frameCard st fi cam (min delta 0.033) i (cards ! i) m)
              | _ \<Rightarrow> cards ! i)"
    using fold_frame_invariant[of "length cards" cards st fi cam "min delta 0.033" meshRefs] assms(1)
    by blast
  then show ?thesis using assms(2) by (simp add: useFrame_def Let_def)
qed

lemma useFrame_skip:
  assumes "i < length cards" and "\<forall>m. lookup meshRefs i \<noteq> Some (Some m)"
  shows "fst (useFrame st fi cam delta (cards, meshRefs)) ! i = cards ! i"
proof -
  have "fst (fold (frameIteration st fi cam (min delta 0.033)) [0..<length cards] (cards, meshRefs)) ! i
          = (case lookup meshRefs i of
                Some (Some m) \<Rightarrow> fst (frameCard st fi cam (min delta 0.033) i (cards ! i) m)
              | _ \<Rightarrow> cards ! i)"
    using fold_frame_invariant[of "length cards" cards st fi cam "min delta 0.033" meshRefs] assms(1)
    by blast
  then show ?thesis using assms(2) by (auto simp: useFrame_def Let_def split: option.splits)
qed

subsection \<open>The spring step\<close>

lemma frameCard_velocity:
  "velocity (fst (frameCard st fi cam dt i c m)) =
     add (velocity c)
       (multiplyScalar
          (add (multiplyScalar (sub (position c) (targetPos st (isFocused fi i) c)) (- SPRING_STIFFNESS))
               (multiplyScalar (velocity c) (- SPRING_DAMPING)))
          dt)"
  by (simp add: frameCard_def Let_def)

lemma frameCard_position:
  "position (fst (frameCard st fi cam dt i c m)) =
     add (position c) (multiplyScalar (velocity (fst (frameCard st fi cam dt i c m))) dt)"
  by (simp add: frameCard_def Let_def)

lemma frameCard_scaleVelocity:
  "scaleVelocity (fst (frameCard st fi cam dt i c m)) =
     scaleVelocity c
       + (- SCALE_STIFFNESS * (scale c - targetScale (isFocused fi i))
          + - SCALE_DAMPING * scaleVelocity c) * dt"
  by (simp add: frameCard_def Let_def)

lemma frameCard_scale:
  "scale (fst (frameCard st fi cam dt i c m)) =
     scale c + scaleVelocity (fst (frameCard st fi cam dt i c m)) * dt"
  by (simp add: frameCard_def Let_def)

lemma frameCard_time:
  "time (fst (frameCard st fi cam dt i c m)) = time c + dt"
  by (simp add: frameCard_def Let_def)

lemma spring_axes:
  "vx (add v (multiplyScalar (add (multiplyScalar (sub p T) (- k)) (multiplyScalar v (- d))) dt))
     = vx v + (- k * (vx p - vx T) - d * vx v) * dt"
  "vy (add v (multiplyScalar (add (multiplyScalar (sub p T) (- k)) (multiplyScalar v (- d))) dt))
     = vy v + (- k * (vy p - vy T) - d * vy v) * dt"
  "vz (add v (multiplyScalar (add (multiplyScalar (sub p T) (- k)) (multiplyScalar v (- d))) dt))
     = vz v + (- k * (vz p - vz T) - d * vz v) * dt"
  by (cases v; cases p; cases T; simp add: algebra_simps)+

lemma move_axes:
  "vx (add p (multiplyScalar v dt)) = vx p + vx v * dt"
  "vy (add p (multiplyScalar v dt)) = vy p + vy v * dt"
  "vz (add p (multiplyScalar v dt)) = vz p + vz v * dt"
  by (cases v; cases p; simp)+

text \<open>
  Claim C5. In a frame with time delta \<open>delta\<close> the step is \<open>dt = min delta 0.033\<close>.
  A card with a mesh group is advanced on each axis by
  \<open>velocity += (- stiffness * (position - target) - damping * velocity) * dt\<close> and then
  \<open>position += velocity * dt\<close> with the new velocity; its scale follows the same scalar
  scheme with the scale constants.
\<close>

theorem spring_step:
  assumes "i < length cards" and "lookup meshRefs i = Some (Some m)"
  shows "let dt = min delta 0.033;
             c = cards ! i;
             c' = fst (useFrame st fi cam delta (cards, meshRefs)) ! i;
             T = targetPos st (isFocused fi i) c;
             S = targetScale (isFocused fi i)
         in dt \<le> 0.033 \<and> dt \<le> delta
          \<and> vx (velocity c') = vx (velocity c)
                + (- SPRING_STIFFNESS * (vx (position c) - vx T) - SPRING_DAMPING * vx (velocity c)) * dt
          \<and> vy (velocity c') = vy (velocity c)
                + (- SPRING_STIFFNESS * (vy (position c) - vy T) - SPRING_DAMPING * vy (velocity c)) * dt
          \<and> vz (velocity c') = vz (velocity c)
                + (- SPRING_STIFFNESS * (vz (position c) - vz T) - SPRING_DAMPING * vz (velocity c)) * dt
          \<and> vx (position c') = vx (position c) + vx (velocity c') * dt
          \<and> vy (position c') = vy (position c) + vy (velocity c') * dt
          \<and> vz (position c') = vz (position c) + vz (velocity c') * dt
          \<and> scaleVelocity c' = scaleVelocity c
                + (- SCALE_STIFFNESS * (scale c - S) - SCALE_DAMPING * scaleVelocity c) * dt
          \<and> scale c' = scale c + scaleVelocity c' * dt"
proof -
  define dt where "dt = min delta 0.033"
  define c' where "c' = fst (frameCard st fi cam dt i (cards ! i) m)"
  have nth: "fst (useFrame st fi cam delta (cards, meshRefs)) ! i = c'"
    unfolding c'_def dt_def by (rule useFrame_nth[OF assms])
  have v: "velocity c' = add (velocity (cards ! i))
       (multiplyScalar
          (add (multiplyScalar (sub (position (cards ! i)) (targetPos st (isFocused fi i) (cards ! i)))
                  (- SPRING_STIFFNESS))
               (multiplyScalar (velocity (cards ! i)) (- SPRING_DAMPING)))
          dt)"
    unfolding c'_def by (rule frameCard_velocity)
  have p: "position c' = add (position (cards ! i)) (multiplyScalar (velocity c') dt)"
    unfolding c'_def by (rule frameCard_position)
  have sv: "scaleVelocity c' = scaleVelocity (cards ! i)
       + (- SCALE_STIFFNESS * (scale (cards ! i) - targetScale (isFocused fi i))
          - SCALE_DAMPING * scaleVelocity (cards ! i)) * dt"
    unfolding c'_def by (simp add: frameCard_scaleVelocity)
  have s: "scale c' = scale (cards ! i) + scaleVelocity c' * dt"
    unfolding c'_def by (rule frameCard_scale)
  have d: "dt \<le> 0.033" "dt \<le> delta" by (simp_all add: dt_def)
  have vxe: "vx (velocity c') = vx (velocity (cards ! i))
      + (- SPRING_STIFFNESS * (vx (position (cards ! i)) - vx (targetPos st (isFocused fi i) (cards ! i)))
         - SPRING_DAMPING * vx (velocity (cards ! i))) * dt"
    unfolding v by (rule spring_axes(1))
  have vye: "vy (velocity c') = vy (velocity (cards ! i))
      + (- SPRING_STIFFNESS * (vy (position (cards ! i)) - vy (targetPos st (isFocused fi i) (cards ! i)))
         - SPRING_DAMPING * vy (velocity (cards ! i))) * dt"
    unfolding v by (rule spring_axes(2))
  have vze: "vz (velocity c') = vz (velocity (cards ! i))
      + (- SPRING_STIFFNESS * (vz (position (cards ! i)) - vz (targetPos st (isFocused fi i) (cards ! i)))
         - SPRING_DAMPING * vz (velocity (cards ! i))) * dt"
    unfolding v by (rule spring_axes(3))
  have pxe: "vx (position c') = vx (position (cards ! i)) + vx (velocity c') * dt"
    unfolding p by (rule move_axes(1))
  have pye: "vy (position c') = vy (position (cards ! i)) + vy (velocity c') * dt"
    unfolding p by (rule move_axes(2))
  have pze: "vz (position c') = vz (position (cards ! i)) + vz (velocity c') * dt"
    unfolding p by (rule move_axes(3))
  show ?thesis
    unfolding Let_def nth dt_def[symmetric]
    using d vxe vye vze pxe pye pze sv s by blast
qed

text \<open>
  Claim C6. For a card at index \<open>i\<close>: when \<open>i\<close> is the focus index the spring target is
  the point \<open>(0, 0, 0.8)\<close> and the target scale is \<open>5\<close>; otherwise the target is the
  card's tree position when the state is \<^verbatim>\<open>'tree'\<close> and its galaxy position for any other
  state, and the target scale is \<open>0.4\<close>. The frame uses exactly these targets and leaves
  both layout positions of the card as they are.
\<close>

theorem target_selection:
  assumes "i < length cards" and "lookup meshRefs i = Some (Some m)"
  shows "let dt = min delta 0.033;
             c = cards ! i;
             c' = fst (useFrame st fi cam delta (cards, meshRefs)) ! i;
             T = (if fi = Some (int i) then Vector3 0 0 0.8
                  else if st = ''tree'' then fromTriple (treePosition c)
                  else fromTriple (galaxyPosition c));
             S = (if fi = Some (int i) then 5 else 0.4)
         in targetPos st (isFocused fi i) c = T
          \<and> targetScale (isFocused fi i) = S
          \<and> velocity c' =
               add (velocity c)
                 (multiplyScalar
                    (add (multiplyScalar (sub (position c) T) (- SPRING_STIFFNESS))
                         (multiplyScalar (velocity c) (- SPRING_DAMPING)))
                    dt)
          \<and> scaleVelocity c' = scaleVelocity c
                + (- SCALE_STIFFNESS * (scale c - S) + - SCALE_DAMPING * scaleVelocity c) * dt
          \<and> treePosition c' = treePosition c \<and> galaxyPosition c' = galaxyPosition c"
proof -
  have T: "targetPos st (isFocused fi i) (cards ! i) =
             (if fi = Some (int i) then Vector3 0 0 0.8
              else if st = ''tree'' then fromTriple (treePosition (cards ! i))
              else fromTriple (galaxyPosition (cards ! i)))"
    by (simp add: targetPos_def isFocused_def)
  have S: "targetScale (isFocused fi i) = (if fi = Some (int i) then 5 else 0.4)"
    by (simp add: targetScale_def isFocused_def)
  have keep: "treePosition (fst (frameCard st fi cam (min delta 0.033) i (cards ! i) m)) = treePosition (cards ! i)"
    "galaxyPosition (fst (frameCard st fi cam (min delta 0.033) i (cards ! i) m)) = galaxyPosition (cards ! i)"
    by (simp_all add: frameCard_def Let_def)
  show ?thesis
    unfolding Let_def useFrame_nth[OF assms] frameCard_velocity frameCard_scaleVelocity T S keep
    by simp
qed

theorem spring_step_witness:
  "vx (velocity (fst (useFrame ''tree'' None (Vector3 0 0 10) 1 ([sampleCard], [Some sampleMesh])) ! 0))
     = 0.825
   \<and> scaleVelocity (fst (useFrame ''tree'' (Some 0) (Vector3 0 0 10) 1 ([sampleCard], [Some sampleMesh])) ! 0)
     = 4.554"
  using spring_step[where i = 0 and cards = "[sampleCard]" and meshRefs = "[Some sampleMesh]" and m = sampleMesh and delta = 1 and st = "''tree''" and fi = "None" and cam = "Vector3 0 0 10"]
    spring_step[where i = 0 and cards = "[sampleCard]" and meshRefs = "[Some sampleMesh]" and m = sampleMesh and delta = 1 and st = "''tree''" and fi = "Some 0" and cam = "Vector3 0 0 10"]
  by (simp add: lookup_def Let_def sampleCard_def targetPos_def targetScale_def isFocused_def
      SPRING_STIFFNESS_def SPRING_DAMPING_def SCALE_STIFFNESS_def SCALE_DAMPING_def)

theorem target_selection_witness:
  "targetPos ''galaxy'' (isFocused None 0) sampleCard = Vector3 4 5 6
   \<and> targetPos ''tree'' (isFocused None 0) sampleCard = Vector3 1 2 3
   \<and> targetPos ''tree'' (isFocused (Some 0) 0) sampleCard = Vector3 0 0 0.8
   \<and> targetScale (isFocused (Some 0) 0) = 5
   \<and> targetScale (isFocused (Some 1) 0) = 0.4"
  using target_selection[where i = 0 and cards = "[sampleCard]" and meshRefs = "[Some sampleMesh]" and m = sampleMesh and delta = 1 and st = "''galaxy''" and fi = "None" and cam = "Vector3 0 0 10"]
    target_selection[where i = 0 and cards = "[sampleCard]" and meshRefs = "[Some sampleMesh]" and m = sampleMesh and delta = 1 and st = "''tree''" and fi = "None" and cam = "Vector3 0 0 10"]
    target_selection[where i = 0 and cards = "[sampleCard]" and meshRefs = "[Some sampleMesh]" and m = sampleMesh and delta = 1 and st = "''tree''" and fi = "Some 0" and cam = "Vector3 0 0 10"]
    target_selection[where i = 0 and cards = "[sampleCard]" and meshRefs = "[Some sampleMesh]" and m = sampleMesh and delta = 1 and st = "''tree''" and fi = "Some 1" and cam = "Vector3 0 0 10"]
  by (simp add: lookup_def Let_def sampleCard_def)

subsection \<open>Reconciliation\<close>

lemma photoUrls_Some: "us \<noteq> [] \<Longrightarrow> photoUrls (Some us) = us"
  by (simp add: photoUrls_def)

lemma photoUrls_default: "photos = None \<or> photos = Some [] \<Longrightarrow> photoUrls photos = PERMANENT_PHOTOS"
  by (auto simp: photoUrls_def getDefaultPhotos_def)

lemma length_photoData: "length (photoData urls gs) = min (length urls) 12"
  by (simp add: photoData_def length_mapi)

lemma nth_photoData:
  assumes "i < length urls" and "i < 12"
  shows "photoData urls gs ! i =
     \<lparr>url = urls ! i,
      photoTreePosition = generateTreePhotoPosition (real i) (real (min (length urls) 12)),
      photoGalaxyPosition = (case gs i of (r1, r2, r3) \<Rightarrow> generateGalaxyPhotoPosition r1 r2 r3)\<rparr>"
  using assms by (simp add: photoData_def nth_mapi)

lemma length_reconcile: "length (reconcile current pd ps) = length pd"
  by (simp add: reconcile_def length_mapi)

lemma nth_reconcile:
  "i < length pd \<Longrightarrow> reconcile current pd ps ! i = reconcileCard (lookup current i) (pd ! i) (ps i)"
  by (simp add: reconcile_def nth_mapi)

lemma length_render: "length (render photos gs ps current) = min (length (photoUrls photos)) 12"
  by (simp add: render_def length_reconcile length_photoData)

lemma nth_render:
  assumes "i < length (photoUrls photos)" and "i < 12"
  shows "render photos gs ps current ! i =
           reconcileCard (lookup current i)
             \<lparr>url = photoUrls photos ! i,
              photoTreePosition =
                generateTreePhotoPosition (real i) (real (min (length (photoUrls photos)) 12)),
              photoGalaxyPosition =
                (case gs i of (r1, r2, r3) \<Rightarrow> generateGalaxyPhotoPosition r1 r2 r3)\<rparr>
             (ps i)"
  using assms by (simp add: render_def nth_reconcile length_photoData nth_photoData)

lemma reconcileCard_new:
  "reconcileCard None photo r =
     \<lparr>treePosition = photoTreePosition photo, galaxyPosition = photoGalaxyPosition photo,
      position = fromTriple (photoTreePosition photo), velocity = Vector3 0 0 0,
      scale = 0.4, scaleVelocity = 0, texture = None, textureUrl = url photo,
      time = r * pi * 2\<rparr>"
  by (simp add: reconcileCard_def orNumber_def)

lemma reconcileCard_existing:
  "reconcileCard (Some e) photo r =
     \<lparr>treePosition = photoTreePosition photo, galaxyPosition = photoGalaxyPosition photo,
      position = position e, velocity = velocity e,
      scale = (if scale e = 0 then 0.4 else scale e), scaleVelocity = scaleVelocity e,
      texture = (if textureUrl e \<noteq> url photo then None else texture e),
      textureUrl = url photo,
      time = (if time e = 0 then r * pi * 2 else time e)\<rparr>"
  by (simp add: reconcileCard_def orNumber_def)

lemma render_urls: "map textureUrl (render photos gs ps current) = take 12 (photoUrls photos)"
proof (rule nth_equalityI)
  show "length (map textureUrl (render photos gs ps current)) = length (take 12 (photoUrls photos))"
    by (simp add: length_render min.commute)
next
  fix i assume "i < length (map textureUrl (render photos gs ps current))"
  then have i: "i < length (photoUrls photos)" "i < 12" by (simp_all add: length_render)
  show "map textureUrl (render photos gs ps current) ! i = take 12 (photoUrls photos) ! i"
    using i by (cases "lookup current i")
      (simp_all add: length_render nth_render reconcileCard_new reconcileCard_existing)
qed

text \<open>
  Claim C9. The number of cards is the smaller of the length of the effective source list
  and \<open>12\<close>; the cards carry the first twelve sources in input order; a missing or empty
  \<^verbatim>\<open>photos\<close> list is replaced by the built-in list, a non-empty one is used as it is.
\<close>

theorem card_count:
  "length (render photos gs ps current) = min (length (photoUrls photos)) 12
   \<and> map textureUrl (render photos gs ps current) = take 12 (photoUrls photos)
   \<and> (photos = None \<or> photos = Some [] \<longrightarrow> photoUrls photos = PERMANENT_PHOTOS)
   \<and> (\<forall>us. photos = Some us \<and> us \<noteq> [] \<longrightarrow> photoUrls photos = us)"
  using length_render render_urls photoUrls_default photoUrls_Some by blast

theorem card_count_witness:
  "length (render (Some [''p1'', ''p2'', ''p3'', ''p4'', ''p5'', ''p6'', ''p7'', ''p8'', ''p9'',
                          ''p10'', ''p11'', ''p12'', ''p13'']) sampleGalaxy samplePhase []) = 12
   \<and> map textureUrl (render (Some []) sampleGalaxy samplePhase []) = PERMANENT_PHOTOS
   \<and> length (render None sampleGalaxy samplePhase []) = 10"
  using card_count[of "Some [''p1'', ''p2'', ''p3'', ''p4'', ''p5'', ''p6'', ''p7'', ''p8'', ''p9'',
                          ''p10'', ''p11'', ''p12'', ''p13'']" sampleGalaxy samplePhase "[]"]
    card_count[of "Some []" sampleGalaxy samplePhase "[]"]
    card_count[of None sampleGalaxy samplePhase "[]"]
  by (simp add: PERMANENT_PHOTOS_def)

lemma galaxy_samples:
  "generateGalaxyPhotoPosition 0 0 (1 / 2) = (4, 0, 0)"
  "generateGalaxyPhotoPosition (1 / 2) 0 (1 / 2) = (7, 0, 0)"
  by (simp_all add: generateGalaxyPhotoPosition_def Let_def)

lemma firstCards_nth:
  "firstCards ! 0 = reconcileCard None
      \<lparr>url = ''a'', photoTreePosition = generateTreePhotoPosition 0 2,
       photoGalaxyPosition = (4, 0, 0)\<rparr> (1 / 4)"
  "firstCards ! Suc 0 = reconcileCard None
      \<lparr>url = ''b'', photoTreePosition = generateTreePhotoPosition 1 2,
       photoGalaxyPosition = (4, 0, 0)\<rparr> (1 / 4)"
  "length firstCards = 2"
  by (simp_all add: firstCards_def nth_render length_render photoUrls_Some lookup_def
      sampleGalaxy_def samplePhase_def galaxy_samples)

lemma frameCard_keeps:
  "textureUrl (fst (frameCard st fi cam dt i c m)) = textureUrl c"
  "texture (fst (frameCard st fi cam dt i c m)) = texture c"
  "galaxyPosition (fst (frameCard st fi cam dt i c m)) = galaxyPosition c"
  "treePosition (fst (frameCard st fi cam dt i c m)) = treePosition c"
  by (simp_all add: frameCard_def Let_def)

lemma movedCards_nth:
  "length movedCards = 2"
  "movedCards ! 0 = fst (frameCard ''tree'' (Some 1) (Vector3 0 0 10) 0.033 0 (firstCards ! 0) sampleMesh)"
  "movedCards ! Suc 0 =
     fst (frameCard ''tree'' (Some 1) (Vector3 0 0 10) 0.033 (Suc 0) (firstCards ! Suc 0) sampleMesh)"
proof -
  show "length movedCards = 2"
    by (simp add: movedCards_def useFrame_length firstCards_nth(3))
  have l0: "lookup [Some sampleMesh, Some sampleMesh] 0 = Some (Some sampleMesh)"
    and l1: "lookup [Some sampleMesh, Some sampleMesh] (Suc 0) = Some (Some sampleMesh)"
    by (simp_all add: lookup_def)
  have i0: "0 < length firstCards" and i1: "Suc 0 < length firstCards"
    by (simp_all add: firstCards_nth(3))
  show "movedCards ! 0 = fst (frameCard ''tree'' (Some 1) (Vector3 0 0 10) 0.033 0 (firstCards ! 0) sampleMesh)"
    unfolding movedCards_def useFrame_nth[OF i0 l0] by simp
  show "movedCards ! Suc 0 =
     fst (frameCard ''tree'' (Some 1) (Vector3 0 0 10) 0.033 (Suc 0) (firstCards ! Suc 0) sampleMesh)"
    unfolding movedCards_def useFrame_nth[OF i1 l1] by simp
qed

lemma movedCards_fields:
  "textureUrl (movedCards ! 0) = ''a''"
  "textureUrl (movedCards ! Suc 0) = ''b''"
  "galaxyPosition (movedCards ! 0) = (4, 0, 0)"
  "scaleVelocity (movedCards ! Suc 0) = 4.554"
  "scale (movedCards ! Suc 0) = 0.550282"
  by (simp_all add: movedCards_nth frameCard_keeps frameCard_scaleVelocity frameCard_scale firstCards_nth
      reconcileCard_new targetScale_def isFocused_def SCALE_STIFFNESS_def SCALE_DAMPING_def)

lemma secondCards_nth:
  "secondCards ! 0 = reconcileCard (Some (movedCards ! 0))
      \<lparr>url = ''a'', photoTreePosition = generateTreePhotoPosition 0 2,
       photoGalaxyPosition = (7, 0, 0)\<rparr> (1 / 4)"
  "secondCards ! Suc 0 = reconcileCard (Some (movedCards ! Suc 0))
      \<lparr>url = ''c'', photoTreePosition = generateTreePhotoPosition 1 2,
       photoGalaxyPosition = (7, 0, 0)\<rparr> (1 / 4)"
  by (simp_all add: secondCards_def nth_render photoUrls_Some lookup_def movedCards_nth(1)
      sampleGalaxy'_def samplePhase_def galaxy_samples)




lemma replacedCards_nth:
  "length replacedCards = 2"
  "replacedCards ! 0 = reconcileCard (Some (firstCards ! 0))
      \<lparr>url = ''a'', photoTreePosition = generateTreePhotoPosition 0 2,
       photoGalaxyPosition = (7, 0, 0)\<rparr> (1 / 4)"
  "replacedCards ! Suc 0 = reconcileCard (Some (firstCards ! Suc 0))
      \<lparr>url = ''c'', photoTreePosition = generateTreePhotoPosition 1 2,
       photoGalaxyPosition = (7, 0, 0)\<rparr> (1 / 4)"
  by (simp_all add: replacedCards_def nth_render length_render photoUrls_Some lookup_def
      firstCards_nth(3) sampleGalaxy'_def samplePhase_def galaxy_samples)

subsection \<open>Acquisition callbacks and the initial scale\<close>

lemma loadRequests_mem:
  assumes "i < length cards" and "texture (cards ! i) = None"
  shows "(i, textureUrl (cards ! i)) \<in> set (loadRequests cards)"
proof -
  define f where "f = (\<lambda>(c::CardData) (i::nat). if texture c = None then [(i, textureUrl c)] else [])"
  have "mapi f cards ! i \<in> set (mapi f cards)"
    using assms(1) by (simp add: length_mapi)
  moreover have "mapi f cards ! i = [(i, textureUrl (cards ! i))]"
    using assms by (simp add: nth_mapi f_def)
  ultimately have "[(i, textureUrl (cards ! i))] \<in> set (mapi f cards)" by simp
  then have "\<exists>xs \<in> set (mapi f cards). (i, textureUrl (cards ! i)) \<in> set xs"
    by (intro bexI[of _ "[(i, textureUrl (cards ! i))]"]) simp_all
  then show ?thesis unfolding loadRequests_def f_def[symmetric] by simp
qed

lemma onLoad_hit:
  "i < length current \<Longrightarrow>
     onLoad i u tex current ! i = (current ! i)\<lparr>texture := Some (prepareTexture tex), textureUrl := u\<rparr>"
  by (simp add: onLoad_def Let_def)

lemma onLoad_miss: "\<not> i < length current \<Longrightarrow> onLoad i u tex current = current"
  by (simp add: onLoad_def Let_def)

lemma onLoad_other: "j \<noteq> i \<Longrightarrow> onLoad i u tex current ! j = current ! j"
  by (simp add: onLoad_def Let_def)

lemma onLoad_length: "length (onLoad i u tex current) = length current"
  by (simp add: onLoad_def Let_def)

lemma onError_hit:
  "i < length current \<Longrightarrow>
     onError i ctx current ! i = (current ! i)\<lparr>texture := Some (placeholderTex i ctx)\<rparr>"
  by (simp add: onError_def)

lemma onError_miss: "\<not> i < length current \<Longrightarrow> onError i ctx current = current"
  by (simp add: onError_def)

lemma onError_other: "j \<noteq> i \<Longrightarrow> onError i ctx current ! j = current ! j"
  by (simp add: onError_def)

lemma onError_length: "length (onError i ctx current) = length current"
  by (simp add: onError_def)

lemma prepareTexture_image: "image_t (prepareTexture tex) = image_t tex"
  by (simp add: prepareTexture_def applyTextureCover_def Let_def split: option.splits)

lemma prepared_differ: "prepareTexture sampleTexture \<noteq> prepareTexture otherTexture"
proof
  assume "prepareTexture sampleTexture = prepareTexture otherTexture"
  then have "image_t (prepareTexture sampleTexture) = image_t (prepareTexture otherTexture)"
    by simp
  then show False
    by (simp add: prepareTexture_image sampleTexture_def otherTexture_def)
qed




text \<open>
  Claim C2 does not hold as stated. The acquisition for \<open>''b''\<close> at index \<open>1\<close> is started,
  then the source at that index becomes \<open>''c''\<close> and a second acquisition is started. When the
  first one completes after the second, its texture replaces the one loaded for \<open>''c''\<close>, and
  the card's recorded source becomes \<open>''b''\<close> again.
\<close>

theorem stale_completion_counterexample:
  "(1, ''b'') \<in> set (loadRequests firstCards)
   \<and> textureUrl (replacedCards ! 1) = ''c''
   \<and> (1, ''c'') \<in> set (loadRequests replacedCards)
   \<and> texture (onLoad 1 ''c'' otherTexture replacedCards ! 1) = Some (prepareTexture otherTexture)
   \<and> texture (onLoad 1 ''b'' sampleTexture (onLoad 1 ''c'' otherTexture replacedCards) ! 1)
       = Some (prepareTexture sampleTexture)
   \<and> prepareTexture sampleTexture \<noteq> prepareTexture otherTexture
   \<and> textureUrl (onLoad 1 ''b'' sampleTexture (onLoad 1 ''c'' otherTexture replacedCards) ! 1) = ''b''"
proof -
  have a: "(Suc 0, ''b'') \<in> set (loadRequests firstCards)"
    using loadRequests_mem[of "Suc 0" firstCards]
    by (simp add: firstCards_nth reconcileCard_new)
  have u: "textureUrl (replacedCards ! Suc 0) = ''c''" "texture (replacedCards ! Suc 0) = None"
    by (simp_all add: replacedCards_nth reconcileCard_existing firstCards_nth reconcileCard_new)
  have b: "(Suc 0, ''c'') \<in> set (loadRequests replacedCards)"
    using loadRequests_mem[of "Suc 0" replacedCards] u by (simp add: replacedCards_nth(1))
  have i: "Suc 0 < length replacedCards"
    "Suc 0 < length (onLoad (Suc 0) ''c'' otherTexture replacedCards)"
    by (simp_all add: replacedCards_nth(1) onLoad_length)
  show ?thesis
    using a u b prepared_differ by (simp add: onLoad_hit[OF i(1)] onLoad_hit[OF i(2)])
qed

text \<open>
  Claim C2, as the code has it. A completion for index \<open>i\<close> writes its result into the
  card at \<open>i\<close> exactly when a card exists there, whatever source that card has: success
  stores the prepared texture and the completed source, failure stores the placeholder.
  Every other card is untouched, and with no card at \<open>i\<close> nothing changes.
\<close>

theorem completion_guard:
  "(i < length current \<longrightarrow>
      onLoad i u tex current ! i
        = (current ! i)\<lparr>texture := Some (prepareTexture tex), textureUrl := u\<rparr>
    \<and> onError i ctx current ! i = (current ! i)\<lparr>texture := Some (placeholderTex i ctx)\<rparr>)
   \<and> (\<not> i < length current \<longrightarrow> onLoad i u tex current = current \<and> onError i ctx current = current)
   \<and> (\<forall>j. j \<noteq> i \<longrightarrow> onLoad i u tex current ! j = current ! j
                   \<and> onError i ctx current ! j = current ! j)
   \<and> length (onLoad i u tex current) = length current
   \<and> length (onError i ctx current) = length current"
  by (simp add: onLoad_hit onLoad_miss onLoad_other onLoad_length
    onError_hit onError_miss onError_other onError_length)

theorem completion_guard_witness:
  "texture (onLoad 0 ''zz'' sampleTexture [sampleCard] ! 0) = Some (prepareTexture sampleTexture)
   \<and> textureUrl (onLoad 0 ''zz'' sampleTexture [sampleCard] ! 0) = ''zz''
   \<and> textureUrl sampleCard = ''a''
   \<and> onLoad 5 ''zz'' sampleTexture [sampleCard] = [sampleCard]
   \<and> onError 5 True [sampleCard] = [sampleCard]"
  using completion_guard[of 0 "[sampleCard]" "''zz''" sampleTexture True]
    completion_guard[of 5 "[sampleCard]" "''zz''" sampleTexture True]
  by (simp add: sampleCard_def)

text \<open>
  Claim C3 does not hold as stated. A newly created card starts at scale \<open>0.4\<close>, which is
  the ambient target scale itself, not a smaller value; and a card whose source changed keeps
  the scale it had, here a value above the ambient scale.
\<close>

theorem initial_scale_counterexample:
  "scale (firstCards ! 0) = 0.4 \<and> targetScale False = 0.4
   \<and> \<not> scale (firstCards ! 0) < targetScale False
   \<and> textureUrl (movedCards ! 1) = ''b'' \<and> textureUrl (secondCards ! 1) = ''c''
   \<and> scale (secondCards ! 1) = 0.550282
   \<and> \<not> scale (secondCards ! 1) < targetScale False"
  by (simp add: firstCards_nth reconcileCard_new targetScale_def
      secondCards_nth reconcileCard_existing movedCards_fields)

text \<open>
  Claim C3, as the code has it. A card created at an index that had no card starts at scale
  \<open>0.4\<close>; a card at an index that had one keeps that card's scale, source changed or not
  (\<open>0.4\<close> replaces a scale of exactly \<open>0\<close>). The value \<open>0.4\<close> equals the ambient target
  scale and is strictly smaller than the focused target scale.
\<close>

theorem initial_scale:
  assumes "i < length (photoUrls photos)" and "i < 12"
  shows "(length current \<le> i \<longrightarrow> scale (render photos gs ps current ! i) = 0.4)
       \<and> (i < length current \<longrightarrow>
            scale (render photos gs ps current ! i)
              = (if scale (current ! i) = 0 then 0.4 else scale (current ! i)))
       \<and> targetScale False = 0.4
       \<and> 0.4 < targetScale True"
proof -
  have new: "length current \<le> i \<longrightarrow> scale (render photos gs ps current ! i) = 0.4"
    by (simp add: nth_render[OF assms] lookup_def reconcileCard_new)
  have old: "i < length current \<longrightarrow>
            scale (render photos gs ps current ! i)
              = (if scale (current ! i) = 0 then 0.4 else scale (current ! i))"
    by (simp add: nth_render[OF assms] lookup_def reconcileCard_existing)
  have "targetScale False = 0.4" "0.4 < targetScale True"
    by (simp_all add: targetScale_def)
  with new old show ?thesis by blast
qed

theorem initial_scale_witness:
  "scale (render (Some [''a'', ''b'']) sampleGalaxy samplePhase [] ! 0) = 0.4
   \<and> scale (render (Some [''a'', ''b'']) sampleGalaxy samplePhase [sampleCard\<lparr>scale := 3\<rparr>] ! 0) = 3"
  using initial_scale[of 0 "Some [''a'', ''b'']" "[]" sampleGalaxy samplePhase]
    initial_scale[of 0 "Some [''a'', ''b'']" "[sampleCard\<lparr>scale := 3\<rparr>]" sampleGalaxy samplePhase]
  by (simp add: photoUrls_Some)

end
